theory Spec2Isabelle
  imports Main "HOL-Library.Word" "HOL-Library.Sublist"
begin

unbundle bit_operations_syntax

section \<open>The memcached client wrapper of rez (src/rez/utils/memcached.py)\<close>

text \<open>
  The module wraps a memcached connection: logical keys are qualified with the rez version
  and a generation tag, hashed to a physical key, and every value is stored as the pair
  (qualified key, value). Keys and tags are Python 2 byte strings, hence \<open>string\<close>.
\<close>

subsection \<open>What the module imports\<close>

text \<open>
  \<open>__version__\<close> (from rez) and \<open>SERVER_MAX_KEY_LENGTH\<close> (from the vendored memcache
  module) are constants declared outside the files at hand; the functions below take them
  as a parameter.
\<close>

record rez_env =
  version :: string
  SERVER_MAX_KEY_LENGTH :: nat

subsection \<open>hashlib.md5 (RFC 1321)\<close>

text \<open>
  \<open>md5(key).hexdigest()\<close>: the message is padded with 0x80, zeros up to 56 mod 64 and
  its bit length as 8 little-endian bytes; each 64-byte block updates four 32-bit words in
  64 steps; the digest is the four words as little-endian bytes, printed as lowercase hex.
\<close>

type_synonym u32 = "32 word"
type_synonym md5_state = "u32 \<times> u32 \<times> u32 \<times> u32"

definition md5_s :: "nat list" where
  "md5_s = [7, 12, 17, 22, 7, 12, 17, 22, 7, 12, 17, 22, 7, 12, 17, 22,
            5, 9, 14, 20, 5, 9, 14, 20, 5, 9, 14, 20, 5, 9, 14, 20,
            4, 11, 16, 23, 4, 11, 16, 23, 4, 11, 16, 23, 4, 11, 16, 23,
            6, 10, 15, 21, 6, 10, 15, 21, 6, 10, 15, 21, 6, 10, 15, 21]"

definition md5_K :: "u32 list" where
  "md5_K = [
   0xd76aa478, 0xe8c7b756, 0x242070db, 0xc1bdceee,
   0xf57c0faf, 0x4787c62a, 0xa8304613, 0xfd469501,
   0x698098d8, 0x8b44f7af, 0xffff5bb1, 0x895cd7be,
   0x6b901122, 0xfd987193, 0xa679438e, 0x49b40821,
   0xf61e2562, 0xc040b340, 0x265e5a51, 0xe9b6c7aa,
   0xd62f105d, 0x02441453, 0xd8a1e681, 0xe7d3fbc8,
   0x21e1cde6, 0xc33707d6, 0xf4d50d87, 0x455a14ed,
   0xa9e3e905, 0xfcefa3f8, 0x676f02d9, 0x8d2a4c8a,
   0xfffa3942, 0x8771f681, 0x6d9d6122, 0xfde5380c,
   0xa4beea44, 0x4bdecfa9, 0xf6bb4b60, 0xbebfbc70,
   0x289b7ec6, 0xeaa127fa, 0xd4ef3085, 0x04881d05,
   0xd9d4d039, 0xe6db99e5, 0x1fa27cf8, 0xc4ac5665,
   0xf4292244, 0x432aff97, 0xab9423a7, 0xfc93a039,
   0x655b59c3, 0x8f0ccc92, 0xffeff47d, 0x85845dd1,
   0x6fa87e4f, 0xfe2ce6e0, 0xa3014314, 0x4e0811a1,
   0xf7537e82, 0xbd3af235, 0x2ad7d2bb, 0xeb86d391]"

definition rotl32 :: "u32 \<Rightarrow> nat \<Rightarrow> u32" where
  "rotl32 x n = push_bit n x OR drop_bit (32 - n) x"

fun le_bytes :: "nat \<Rightarrow> nat \<Rightarrow> nat list" where
  "le_bytes 0 x = []"
| "le_bytes (Suc n) x = (x mod 256) # le_bytes n (x div 256)"

definition le_word :: "nat list \<Rightarrow> u32" where
  "le_word bs = of_nat (foldr (\<lambda>b acc. b + 256 * acc) bs 0)"

definition md5_padding :: "nat \<Rightarrow> nat list" where
  "md5_padding n =
     128 # replicate ((119 - n mod 64) mod 64) 0 @ le_bytes 8 ((8 * n) mod 2 ^ 64)"

definition md5_round :: "nat \<Rightarrow> u32 \<Rightarrow> u32 \<Rightarrow> u32 \<Rightarrow> u32" where
  "md5_round i b c d =
     (if i < 16 then (b AND c) OR (NOT b AND d)
      else if i < 32 then (d AND b) OR (NOT d AND c)
      else if i < 48 then b XOR c XOR d
      else c XOR (b OR NOT d))"

definition md5_index :: "nat \<Rightarrow> nat" where
  "md5_index i =
     (if i < 16 then i
      else if i < 32 then (5 * i + 1) mod 16
      else if i < 48 then (3 * i + 5) mod 16
      else (7 * i) mod 16)"

definition md5_step :: "u32 list \<Rightarrow> nat \<Rightarrow> md5_state \<Rightarrow> md5_state" where
  "md5_step M i st =
    (case st of (a, b, c, d) \<Rightarrow>
       (d, b + rotl32 (md5_round i b c d + a + md5_K ! i + M ! md5_index i) (md5_s ! i), b, c))"

definition md5_block :: "md5_state \<Rightarrow> u32 list \<Rightarrow> md5_state" where
  "md5_block st M =
    (case st of (a0, b0, c0, d0) \<Rightarrow>
     case fold (md5_step M) [0..<64] st of
       (a, b, c, d) \<Rightarrow> (a0 + a, b0 + b, c0 + c, d0 + d))"

definition md5_words :: "nat list \<Rightarrow> u32 list" where
  "md5_words bs = map (\<lambda>j. le_word (take 4 (drop (4 * j) bs))) [0..<16]"

primrec md5_blocks :: "nat \<Rightarrow> nat list \<Rightarrow> md5_state \<Rightarrow> md5_state" where
  "md5_blocks 0 bs st = st"
| "md5_blocks (Suc n) bs st =
     md5_blocks n (drop 64 bs) (md5_block st (md5_words (take 64 bs)))"

definition md5_init :: md5_state where
  "md5_init = (0x67452301, 0xefcdab89, 0x98badcfe, 0x10325476)"

definition md5_digest :: "string \<Rightarrow> nat list" where
  "md5_digest msg =
    (let bs = map of_char msg @ md5_padding (length msg) in
     case md5_blocks (length bs div 64) bs md5_init of
       (a, b, c, d) \<Rightarrow> concat (map (\<lambda>w. le_bytes 4 (unat w)) [a, b, c, d]))"

definition hexdigit :: "nat \<Rightarrow> char" where
  "hexdigit n = ''0123456789abcdef'' ! (n mod 16)"

definition hexdigest :: "nat list \<Rightarrow> string" where
  "hexdigest bs = concat (map (\<lambda>b. [hexdigit (b div 16), hexdigit b]) bs)"

definition md5_hexdigest :: "string \<Rightarrow> string" where
  "md5_hexdigest msg = hexdigest (md5_digest msg)"

subsection \<open>Physical keys: \<open>Client._key_hash\<close> and \<open>Client._debug_key_hash\<close>\<close>

definition Client_key_hash :: "string \<Rightarrow> string" where
  "Client_key_hash key = md5_hexdigest key"

text \<open>The character class \<open>[0-9a-zA-Z]\<close>, by byte ranges.\<close>

definition alnum :: "char \<Rightarrow> bool" where
  "alnum ch =
     (let n = (of_char ch :: nat)
      in (48 \<le> n \<and> n \<le> 57) \<or> (97 \<le> n \<and> n \<le> 122) \<or> (65 \<le> n \<and> n \<le> 90))"

text \<open>
  \<open>re.sub("[^0-9a-zA-Z]+", '_', value)\<close>: scanning from the left, a character of the
  class is copied; any other character starts a match that extends over the longest run
  of such characters, and the whole run is replaced by one underscore.
\<close>

function re_sub_non_alnum :: "string \<Rightarrow> string" where
  "re_sub_non_alnum [] = []"
| "re_sub_non_alnum (ch # cs) =
     (if alnum ch then ch # re_sub_non_alnum cs
      else CHR ''_'' # re_sub_non_alnum (dropWhile (\<lambda>x. \<not> alnum x) cs))"
  by pat_completeness auto
termination
  by (relation "measure length") (auto simp: le_imp_less_Suc length_dropWhile_le)

definition Client_debug_key_hash :: "rez_env \<Rightarrow> string \<Rightarrow> string" where
  "Client_debug_key_hash E key =
    (let h = take 16 (Client_key_hash key);
         value1 = h @ '':'' @ key;
         value2 = take (SERVER_MAX_KEY_LENGTH E) value1
     in re_sub_non_alnum value2)"

subsection \<open>Python values and the remote store\<close>

text \<open>The values a caller may cache; \<open>PNone\<close> is Python's \<open>None\<close>.\<close>

datatype pyval =
    PNone
  | PBool bool
  | PInt int
  | PStr string
  | PTuple "pyval list"
  | PList "pyval list"

text \<open>The requests the wrapper sends over its connection.\<close>

datatype request =
    ReqSet string pyval int int
  | ReqGet string
  | ReqDelete string
  | ReqFlushAll
  | ReqStats "string option"

text \<open>
  Modelled from the spec: the remote key-value store behind \<open>memcache.Client\<close> (the
  vendored client is not among the files at hand). The spec describes it as a store
  "exposing get/set/delete/flush-all/stats as atomic remote operations": \<open>entries\<close> is
  what the servers hold, \<open>traffic\<close> the requests received so far, oldest first. Expiry,
  compression and eviction are the store's own and are not modelled: an entry stays until
  it is overwritten, deleted or flushed.
\<close>

record store =
  entries :: "string \<rightharpoonup> pyval"
  traffic :: "request list"

definition empty_store :: store where
  "empty_store = \<lparr>entries = Map.empty, traffic = []\<rparr>"

definition store_set :: "store \<Rightarrow> string \<Rightarrow> pyval \<Rightarrow> int \<Rightarrow> int \<Rightarrow> store" where
  "store_set st key val time min_compress_len =
     st\<lparr>entries := (entries st)(key \<mapsto> val),
        traffic := traffic st @ [ReqSet key val time min_compress_len]\<rparr>"

definition store_get :: "store \<Rightarrow> string \<Rightarrow> pyval option \<times> store" where
  "store_get st key = (entries st key, st\<lparr>traffic := traffic st @ [ReqGet key]\<rparr>)"

definition store_delete :: "store \<Rightarrow> string \<Rightarrow> store" where
  "store_delete st key =
     st\<lparr>entries := (entries st)(key := None), traffic := traffic st @ [ReqDelete key]\<rparr>"



subsection \<open>The class \<open>Client\<close>\<close>

text \<open>
  The fields set by \<open>__init__\<close>. \<open>key_hasher\<close> is determined by \<open>debug\<close> and is a
  function below; the lazily created connection \<open>_client\<close> is the store that every
  operation takes and returns.
\<close>

record client =
  servers :: "string list"
  debug :: bool
  current :: string

definition Client_init :: "string list \<Rightarrow> bool \<Rightarrow> client" where
  "Client_init srvs dbg = \<lparr>servers = srvs, debug = dbg, current = []\<rparr>"

definition key_hasher :: "rez_env \<Rightarrow> client \<Rightarrow> string \<Rightarrow> string" where
  "key_hasher E c = (if debug c then Client_debug_key_hash E else Client_key_hash)"

definition Client_qualified_key :: "rez_env \<Rightarrow> client \<Rightarrow> string \<Rightarrow> string" where
  "Client_qualified_key E c key = version E @ '':'' @ current c @ '':'' @ key"

text \<open>The result of \<open>get\<close>: the singleton \<open>Client.miss\<close>, or the cached value.\<close>

datatype lookup = Miss | Value pyval

definition Client_set ::
  "rez_env \<Rightarrow> client \<Rightarrow> store \<Rightarrow> string \<Rightarrow> pyval \<Rightarrow> int \<Rightarrow> int \<Rightarrow> store" where
  "Client_set E c st key0 val0 time min_compress_len =
    (let key = Client_qualified_key E c key0;
         hashed_key = key_hasher E c key;
         val = PTuple [PStr key, val0]
     in store_set st hashed_key val time min_compress_len)"

definition Client_get :: "rez_env \<Rightarrow> client \<Rightarrow> store \<Rightarrow> string \<Rightarrow> lookup \<times> store" where
  "Client_get E c st key0 =
    (let key = Client_qualified_key E c key0;
         hashed_key = key_hasher E c key;
         (entry, st') = store_get st hashed_key
     in (case entry of
           Some (PTuple [key', result]) \<Rightarrow> if key' = PStr key then Value result else Miss
         | _ \<Rightarrow> Miss,
         st'))"

definition Client_delete :: "rez_env \<Rightarrow> client \<Rightarrow> store \<Rightarrow> string \<Rightarrow> store" where
  "Client_delete E c st key0 =
    (let key = Client_qualified_key E c key0;
         hashed_key = key_hasher E c key
     in store_delete st hashed_key)"



subsection \<open>Vocabulary of the properties\<close>





text \<open>The physical key under which a client stores and looks up a logical key.\<close>

definition physical_key :: "rez_env \<Rightarrow> client \<Rightarrow> string \<Rightarrow> string" where
  "physical_key E c key = key_hasher E c (Client_qualified_key E c key)"

text \<open>Two environments and two clients used to instantiate the theorems below.\<close>

definition env0 :: rez_env where
  "env0 = \<lparr>version = ''2.0.0'', SERVER_MAX_KEY_LENGTH = 250\<rparr>"

definition client0 :: client where
  "client0 = Client_init [''127.0.0.1:11211''] False"

definition client_dbg :: client where
  "client_dbg = Client_init [''127.0.0.1:11211''] True"

definition long_key :: string where
  "long_key = replicate 300 CHR ''k''"


text \<open>A store holding, at the physical key of \<open>''k''\<close>, a pair written for another key.\<close>

definition clash_store :: store where
  "clash_store =
     \<lparr>entries = [physical_key env0 client0 ''k'' \<mapsto> PTuple [PStr ''2.0.0::other'', PInt 1]],
      traffic = []\<rparr>"













section \<open>Length of physical keys\<close>

lemma length_le_bytes: "length (le_bytes n x) = n"
  by (induction n arbitrary: x) auto

lemma length_md5_digest: "length (md5_digest msg) = 16"
  by (simp add: md5_digest_def Let_def length_le_bytes split: prod.splits)

lemma length_hexdigest: "length (hexdigest bs) = 2 * length bs"
  by (induction bs) (auto simp: hexdigest_def)

lemma length_key_hash: "length (Client_key_hash key) = 32"
  by (simp add: Client_key_hash_def md5_hexdigest_def length_hexdigest length_md5_digest)

lemma length_re_sub: "length (re_sub_non_alnum cs) \<le> length cs"
proof (induction cs rule: re_sub_non_alnum.induct)
  case 1
  then show ?case by simp
next
  case (2 ch cs)
  have "length (dropWhile (\<lambda>x. \<not> alnum x) cs) \<le> length cs"
    by (rule length_dropWhile_le)
  with 2 show ?case by auto
qed

lemma length_debug_key_hash:
  "length (Client_debug_key_hash E key) \<le> SERVER_MAX_KEY_LENGTH E"
proof -
  let ?v = "take (SERVER_MAX_KEY_LENGTH E) (take 16 (Client_key_hash key) @ '':'' @ key)"
  have "length (re_sub_non_alnum ?v) \<le> length ?v" by (rule length_re_sub)
  also have "\<dots> \<le> SERVER_MAX_KEY_LENGTH E" by simp
  finally show ?thesis by (simp add: Client_debug_key_hash_def Let_def)
qed

text \<open>
  Claim C3. The physical key produced by the key hasher is never longer than
  \<open>SERVER_MAX_KEY_LENGTH\<close>, whatever the length of the qualified key. In debug mode the
  key is cut to the limit before runs of characters outside \<open>[0-9a-zA-Z]\<close> are
  collapsed, which can only shorten it, so the bound holds for every limit. In non-debug
  mode the key is the MD5 hex digest, always 32 characters, so the bound holds for every
  limit of at least 32 (\<open>SERVER_MAX_KEY_LENGTH\<close> is declared outside the files at hand
  and is a parameter here).
\<close>

theorem physical_key_length:
  "(debug c \<longrightarrow> length (key_hasher E c key) \<le> SERVER_MAX_KEY_LENGTH E) \<and>
   (\<not> debug c \<longrightarrow> length (key_hasher E c key) = 32) \<and>
   (32 \<le> SERVER_MAX_KEY_LENGTH E \<longrightarrow> length (key_hasher E c key) \<le> SERVER_MAX_KEY_LENGTH E)"
proof (cases "debug c")
  case True
  then have "key_hasher E c key = Client_debug_key_hash E key"
    by (simp add: key_hasher_def)
  with True show ?thesis by (simp add: length_debug_key_hash)
next
  case False
  then have "key_hasher E c key = Client_key_hash key"
    by (simp add: key_hasher_def)
  with False show ?thesis by (simp add: length_key_hash)
qed

theorem physical_key_length_witness:
  "debug client_dbg \<and> \<not> debug client0 \<and> 32 \<le> SERVER_MAX_KEY_LENGTH env0 \<and>
   length long_key = 300 \<and>
   length (key_hasher env0 client_dbg long_key) \<le> 250 \<and>
   length (key_hasher env0 client0 long_key) = 32 \<and>
   length (key_hasher env0 client0 long_key) \<le> 250"
  using physical_key_length [of client_dbg env0 long_key]
    physical_key_length [of client0 env0 long_key]
  by (simp add: env0_def client0_def client_dbg_def Client_init_def long_key_def)

section \<open>Lookups\<close>

lemma entries_Client_set:
  "entries (Client_set E c st k v t m) =
     (entries st)(physical_key E c k \<mapsto> PTuple [PStr (Client_qualified_key E c k), v])"
  by (simp add: Client_set_def store_set_def physical_key_def Let_def)

lemma fst_Client_get:
  "fst (Client_get E c st k) =
     (case entries st (physical_key E c k) of
        Some (PTuple [key', r]) \<Rightarrow>
          if key' = PStr (Client_qualified_key E c k) then Value r else Miss
      | _ \<Rightarrow> Miss)"
  by (simp add: Client_get_def store_get_def physical_key_def Let_def)

text \<open>
  Claim C1. For every key and every value, \<open>None\<close> included, \<open>get(k)\<close> straight after
  \<open>set(k, v)\<close> on the same client returns exactly \<open>v\<close>, which is never the miss
  sentinel. \<open>get\<close> returns the miss sentinel when the store holds nothing at the physical
  key, and when it holds a pair whose embedded key is not the qualified key of the lookup:
  a collision of physical keys is a miss, not an error and not the other key's value.
\<close>

theorem get_after_set:
  "fst (Client_get E c (Client_set E c st k v 0 0) k) = Value v \<and>
   Value v \<noteq> Miss \<and>
   (entries st (physical_key E c k) = None \<longrightarrow> fst (Client_get E c st k) = Miss) \<and>
   (entries st (physical_key E c k) = Some (PTuple [key', r]) \<and>
      key' \<noteq> PStr (Client_qualified_key E c k) \<longrightarrow> fst (Client_get E c st k) = Miss)"
  by (simp add: fst_Client_get entries_Client_set)

theorem get_after_set_witness:
  "fst (Client_get env0 client0 (Client_set env0 client0 empty_store ''k'' PNone 0 0) ''k'')
     = Value PNone \<and>
   entries empty_store (physical_key env0 client0 ''k'') = None \<and>
   fst (Client_get env0 client0 empty_store ''k'') = Miss \<and>
   entries clash_store (physical_key env0 client0 ''k'')
     = Some (PTuple [PStr ''2.0.0::other'', PInt 1]) \<and>
   PStr ''2.0.0::other'' \<noteq> PStr (Client_qualified_key env0 client0 ''k'') \<and>
   fst (Client_get env0 client0 clash_store ''k'') = Miss"
proof -
  have q: "Client_qualified_key env0 client0 ''k'' = ''2.0.0::k''"
    by (simp add: Client_qualified_key_def env0_def client0_def Client_init_def)
  have e: "entries empty_store (physical_key env0 client0 ''k'') = None"
    by (simp add: empty_store_def)
  have s: "entries clash_store (physical_key env0 client0 ''k'')
             = Some (PTuple [PStr ''2.0.0::other'', PInt 1])"
    by (simp add: clash_store_def)
  have d: "PStr ''2.0.0::other'' \<noteq> PStr (Client_qualified_key env0 client0 ''k'')"
    by (simp add: q)
  from e s d
    get_after_set [of env0 client0 empty_store "''k''" PNone]
    get_after_set [of env0 client0 clash_store "''k''" PNone "PStr ''2.0.0::other''" "PInt 1"]
  show ?thesis by simp
qed

section \<open>Soft flush\<close>



















end
